theory Spec2Isabelle
  imports Main "HOL-Library.Sublist"
begin

section \<open>The environment of the web service adapters\<close>

text \<open>
  The two adapters of \<^verbatim>\<open>toolsws/wstypes\<close> inspect the filesystem, build a list of
  strings and hand it to \<^verbatim>\<open>subprocess.check_call\<close>. The world they act on is kept
  explicit: which paths \<^verbatim>\<open>os.path.exists\<close> answers True for, the three stream
  objects \<^verbatim>\<open>sys.stdin\<close>, \<^verbatim>\<open>sys.stdout\<close> and \<^verbatim>\<open>sys.stderr\<close> of the running process,
  the exit status the operating system reports for a command line, and the trace of
  the calls of \<^verbatim>\<open>check_call\<close> issued so far.
\<close>

type_synonym path = string

datatype stream = Stream nat

datatype error =
    InvalidWebServiceException string
  | CalledProcessError int "string list"
  | OtherException string

record launch =
  argv :: "string list"
  l_stdin :: stream
  l_stdout :: stream
  l_stderr :: stream

record world =
  fs :: "path set"
  sys_stdin :: stream
  sys_stdout :: stream
  sys_stderr :: stream
  returncode :: "string list \<Rightarrow> int"
  launched :: "launch list"

text \<open>A statement that may raise: the outcome and the world it leaves behind.\<close>

type_synonym 'a action = "world \<Rightarrow> (error + 'a) \<times> world"

text \<open>Sequencing of two statements: an exception of the first skips the second.\<close>

definition and_then :: "unit action \<Rightarrow> 'a action \<Rightarrow> 'a action" where
  "and_then f g w =
     (case f w of
        (Inl e, w') \<Rightarrow> (Inl e, w')
      | (Inr u, w') \<Rightarrow> g w')"

definition os_path_exists :: "world \<Rightarrow> path \<Rightarrow> bool" where
  "os_path_exists w p = (p \<in> fs w)"

text \<open>
  \<^verbatim>\<open>os.path.join(a, b)\<close> of two components on POSIX: an absolute second component
  replaces the first, otherwise the two are joined by one separator unless the first
  is empty or already ends with one.
\<close>

definition os_path_join :: "path \<Rightarrow> path \<Rightarrow> path" where
  "os_path_join a b =
     (if b \<noteq> [] \<and> hd b = CHR ''/'' then b
      else if a = [] \<or> last a = CHR ''/'' then a @ b
      else a @ ''/'' @ b)"

text \<open>
  \<^verbatim>\<open>subprocess.check_call(args, stdin=.., stdout=.., stderr=..)\<close>: the command is
  run with the given streams and the call waits for it; a non-zero exit status is
  raised as \<^verbatim>\<open>CalledProcessError\<close>. The trace records the call with its arguments.
  What the child itself does to the filesystem is outside the adapters and is not part
  of the model.
\<close>

definition check_call :: "string list \<Rightarrow> stream \<Rightarrow> stream \<Rightarrow> stream \<Rightarrow> unit action" where
  "check_call args sin sout serr w =
     (let w' = w\<lparr>launched := launched w @
                 [\<lparr>argv = args, l_stdin = sin, l_stdout = sout, l_stderr = serr\<rparr>]\<rparr>;
          retcode = returncode w args
      in if retcode \<noteq> 0 then (Inl (CalledProcessError retcode args), w')
         else (Inr (), w'))"

section \<open>Python values rendered as text\<close>

text \<open>\<^verbatim>\<open>str(port)\<close> for an integer port: the decimal digits, with a minus sign first
  when the number is negative.\<close>

fun str_nat :: "nat \<Rightarrow> string" where
  "str_nat n =
     (if n < 10 then [''0123456789'' ! n]
      else str_nat (n div 10) @ [''0123456789'' ! (n mod 10)])"

declare str_nat.simps [simp del]

definition str :: "int \<Rightarrow> string" where
  "str i = (if i < 0 then ''-'' @ str_nat (nat (- i)) else str_nat (nat i))"

section \<open>The tool\<close>

record tool =
  name :: string
  home :: path

text \<open>
  Modelled from the spec: \<^verbatim>\<open>Tool.get_homedir_subpath\<close> is defined outside the two
  source files. The specification writes its result as \<^verbatim>\<open><home>/<subpath>\<close>, the
  subpath below the tool's home directory, which is \<^verbatim>\<open>os.path.join\<close> of the two.
\<close>

definition get_homedir_subpath :: "tool \<Rightarrow> path \<Rightarrow> path" where
  "get_homedir_subpath t p = os_path_join (home t) p"

section \<open>\<^verbatim>\<open>PythonWebService\<close> (wstypes/python.py)\<close>

definition PythonWebService_check :: "tool \<Rightarrow> 'w \<Rightarrow> unit action" where
  "PythonWebService_check t wstype w =
     (let src_path = get_homedir_subpath t ''www/python/src''
      in if \<not> os_path_exists w src_path
         then (Inl (InvalidWebServiceException
                 (''Could not find ~/www/python/src. Are you sure you have a '' @
                  ''proper uwsgi application in ~/www/python/src?'')), w)
         else (Inr (), w))"

text \<open>
  The command list of \<^verbatim>\<open>PythonWebService.run\<close>: the fixed flags, then the two
  conditional extensions \<^verbatim>\<open>command += [...]\<close>, in the order of the source.
\<close>

definition PythonWebService_command :: "tool \<Rightarrow> int \<Rightarrow> world \<Rightarrow> string list" where
  "PythonWebService_command t port w =
     (let command =
            [''/usr/bin/uwsgi'',
             ''--plugin'',
             ''python,python3'',
             ''--http-socket'',
             '':'' @ str port,
             ''--chdir'',
             get_homedir_subpath t ''www/python/src'',
             ''--logto'',
             get_homedir_subpath t ''uwsgi.log'',
             ''--callable'',
             ''app'',
             ''--manage-script-name'',
             ''--workers'',
             ''4'',
             ''--mount'',
             ''/'' @ name t @ ''='' @ get_homedir_subpath t ''www/python/src/app.py'',
             ''--die-on-term'',
             ''--strict'',
             ''--master''];
          command =
            (if os_path_exists w (get_homedir_subpath t ''www/python/venv'')
             then command @ [''--venv'', get_homedir_subpath t ''www/python/venv'']
             else command);
          command =
            (if os_path_exists w (get_homedir_subpath t ''www/python/uwsgi.ini'')
             then command @ [''--ini'', get_homedir_subpath t ''www/python/uwsgi.ini'']
             else command)
      in command)"

text \<open>
  \<^verbatim>\<open>PythonWebService.run\<close>. The base-class method \<^verbatim>\<open>WebService.run\<close>, called
  first through \<^verbatim>\<open>super\<close>, is defined outside the two source files: it is the
  parameter \<open>super_run\<close>, any statement on the world that returns or raises.
\<close>

definition PythonWebService_run :: "(int \<Rightarrow> unit action) \<Rightarrow> tool \<Rightarrow> int \<Rightarrow> unit action" where
  "PythonWebService_run super_run t port =
     and_then (super_run port)
       (\<lambda>w. check_call (PythonWebService_command t port w)
               (sys_stdin w) (sys_stdout w) (sys_stderr w) w)"

section \<open>\<^verbatim>\<open>UwsgiWebService\<close> (wstypes/uwsgi.py)\<close>

definition UwsgiWebService_check :: "tool \<Rightarrow> 'w \<Rightarrow> unit action" where
  "UwsgiWebService_check t wstype w =
     (let src_path = get_homedir_subpath t ''uwsgi.ini''
      in if \<not> os_path_exists w src_path
         then (Inl (InvalidWebServiceException
                 (''Could not find ~/uwsgi.ini. Are you sure you have a '' @
                  ''proper uwsgi config setup in ~/uwsgi.ini?'')), w)
         else (Inr (), w))"

definition UwsgiWebService_command :: "tool \<Rightarrow> int \<Rightarrow> string list" where
  "UwsgiWebService_command t port =
     [''/usr/bin/uwsgi'',
      ''--http-socket'',
      '':'' @ str port,
      ''--logto'',
      get_homedir_subpath t ''uwsgi.log'',
      ''--ini'',
      get_homedir_subpath t ''uwsgi.ini'',
      ''--workers'',
      ''4'',
      ''--die-on-term'',
      ''--strict'',
      ''--master'']"

definition UwsgiWebService_run :: "(int \<Rightarrow> unit action) \<Rightarrow> tool \<Rightarrow> int \<Rightarrow> unit action" where
  "UwsgiWebService_run super_run t port =
     and_then (super_run port)
       (\<lambda>w. check_call (UwsgiWebService_command t port)
               (sys_stdin w) (sys_stdout w) (sys_stderr w) w)"

section \<open>Vocabulary of the properties\<close>

text \<open>A flag immediately followed by its value somewhere in a command list.\<close>

fun has_pair :: "'a \<Rightarrow> 'a \<Rightarrow> 'a list \<Rightarrow> bool" where
  "has_pair a b (x # y # ys) = ((x = a \<and> y = b) \<or> has_pair a b (y # ys))"
| "has_pair a b _ = False"

text \<open>
  Concrete data for evaluating the adapters: a tool, a base-class \<^verbatim>\<open>run\<close> that returns
  at once, worlds in which every command exits with status 0 and in which nothing, or
  only some of the paths, exist.
\<close>

definition super_run_skip :: "int \<Rightarrow> unit action" where
  "super_run_skip port w = (Inr (), w)"

definition exit_ok :: "string list \<Rightarrow> int" where
  "exit_ok args = 0"

definition tool_a :: tool where
  "tool_a = \<lparr>name = ''a'', home = ''/data/project/a''\<rparr>"

definition world_of :: "path set \<Rightarrow> world" where
  "world_of ps = \<lparr>fs = ps, sys_stdin = Stream 0, sys_stdout = Stream 1, sys_stderr = Stream 2,
                  returncode = exit_ok, launched = []\<rparr>"

section \<open>Helper facts\<close>

lemma has_pair_iff_nth:
  "has_pair a b xs = (\<exists>i. Suc i < length xs \<and> xs ! i = a \<and> xs ! Suc i = b)"
proof (induction a b xs rule: has_pair.induct)
  case (1 a b x y ys)
  show ?case
  proof
    assume "has_pair a b (x # y # ys)"
    then consider "x = a \<and> y = b" | "has_pair a b (y # ys)" by auto
    then show "\<exists>i. Suc i < length (x # y # ys) \<and> (x # y # ys) ! i = a \<and> (x # y # ys) ! Suc i = b"
    proof cases
      case 1
      then have "Suc 0 < length (x # y # ys) \<and> (x # y # ys) ! 0 = a \<and> (x # y # ys) ! Suc 0 = b"
        by simp
      then show ?thesis by blast
    next
      case 2
      with "1.IH" obtain i where "Suc i < length (y # ys)" "(y # ys) ! i = a" "(y # ys) ! Suc i = b"
        by blast
      then have "Suc (Suc i) < length (x # y # ys) \<and> (x # y # ys) ! Suc i = a
                 \<and> (x # y # ys) ! Suc (Suc i) = b"
        by simp
      then show ?thesis by blast
    qed
  next
    assume "\<exists>i. Suc i < length (x # y # ys) \<and> (x # y # ys) ! i = a \<and> (x # y # ys) ! Suc i = b"
    then obtain i where i: "Suc i < length (x # y # ys)" "(x # y # ys) ! i = a"
      "(x # y # ys) ! Suc i = b" by blast
    show "has_pair a b (x # y # ys)"
    proof (cases i)
      case 0
      with i show ?thesis by simp
    next
      case (Suc j)
      with i have "Suc j < length (y # ys) \<and> (y # ys) ! j = a \<and> (y # ys) ! Suc j = b" by simp
      then have "has_pair a b (y # ys)" using "1.IH" by blast
      then show ?thesis by simp
    qed
  qed
qed simp_all

lemma has_pair_absent: "a \<notin> set xs \<Longrightarrow> \<not> has_pair a b xs"
  by (induction a b xs rule: has_pair.induct) auto

lemma has_pair_append_last: "has_pair a b (xs @ [a, b])"
  by (induction a b xs rule: has_pair.induct) auto

lemma os_path_join_length: "length b \<le> length (os_path_join a b)"
  by (simp add: os_path_join_def)

text \<open>A subpath of the home directory is never a string shorter than the subpath.\<close>

lemma subpath_neq: "length s < length p \<Longrightarrow> get_homedir_subpath t p \<noteq> s"
  using os_path_join_length [of p "home t"] by (auto simp: get_homedir_subpath_def)

lemma launched_check_call:
  "launched (snd (check_call args a b c w)) =
     launched w @ [\<lparr>argv = args, l_stdin = a, l_stdout = b, l_stderr = c\<rparr>]"
  by (simp add: check_call_def Let_def)

text \<open>When the base-class \<^verbatim>\<open>run\<close> returns, the adapter's \<^verbatim>\<open>run\<close> is its one call of
  \<^verbatim>\<open>check_call\<close>, in the world the base class left.\<close>

lemma PythonWebService_run_returns:
  "super_run port w = (Inr (), w1) \<Longrightarrow>
   PythonWebService_run super_run t port w =
     check_call (PythonWebService_command t port w1)
       (sys_stdin w1) (sys_stdout w1) (sys_stderr w1) w1"
  by (simp add: PythonWebService_run_def and_then_def)

lemma UwsgiWebService_run_returns:
  "super_run port w = (Inr (), w1) \<Longrightarrow>
   UwsgiWebService_run super_run t port w =
     check_call (UwsgiWebService_command t port)
       (sys_stdin w1) (sys_stdout w1) (sys_stderr w1) w1"
  by (simp add: UwsgiWebService_run_def and_then_def)

lemma PythonWebService_run_argv:
  "super_run port w = (Inr (), w1) \<Longrightarrow>
   map argv (launched (snd (PythonWebService_run super_run t port w))) =
     map argv (launched w1) @ [PythonWebService_command t port w1]"
  by (simp add: PythonWebService_run_returns launched_check_call)

lemma UwsgiWebService_run_argv:
  "super_run port w = (Inr (), w1) \<Longrightarrow>
   map argv (launched (snd (UwsgiWebService_run super_run t port w))) =
     map argv (launched w1) @ [UwsgiWebService_command t port]"
  by (simp add: UwsgiWebService_run_returns launched_check_call)

lemma python_ini_pair:
  "has_pair ''--ini'' (get_homedir_subpath t ''www/python/uwsgi.ini'')
     (PythonWebService_command t port w)
   = os_path_exists w (get_homedir_subpath t ''www/python/uwsgi.ini'')"
  by (simp add: PythonWebService_command_def Let_def subpath_neq)

lemma python_venv_pair:
  "has_pair ''--venv'' (get_homedir_subpath t ''www/python/venv'')
     (PythonWebService_command t port w)
   = os_path_exists w (get_homedir_subpath t ''www/python/venv'')"
  by (simp add: PythonWebService_command_def Let_def subpath_neq)

text \<open>The rendering of a port on concrete numbers.\<close>

lemma str_examples:
  "str 8000 = ''8000''" "str 0 = ''0''" "str (- 1) = ''-1''" "str 70000 = ''70000''"
  by (simp_all add: str_def str_nat.simps)

section \<open>The checks\<close>

text \<open>
  Claim C3. For every tool and every filesystem state, \<^verbatim>\<open>PythonWebService.check\<close> raises
  \<^verbatim>\<open>InvalidWebServiceException\<close> if and only if the path \<^verbatim>\<open>www/python/src\<close> below the
  tool's home does not exist; when the path exists it returns normally and leaves the
  world as it was.
\<close>

theorem C3_python_check:
  "((\<exists>m. fst (PythonWebService_check t wstype w) = Inl (InvalidWebServiceException m))
      = (\<not> os_path_exists w (get_homedir_subpath t ''www/python/src'')))
   \<and> (isl (fst (PythonWebService_check t wstype w))
      = (\<not> os_path_exists w (get_homedir_subpath t ''www/python/src'')))
   \<and> (os_path_exists w (get_homedir_subpath t ''www/python/src'')
      \<longrightarrow> PythonWebService_check t wstype w = (Inr (), w))"
  by (simp add: PythonWebService_check_def Let_def)

theorem C3_python_check_witness:
  "os_path_exists (world_of {''/data/project/a/www/python/src''})
     (get_homedir_subpath tool_a ''www/python/src'')
   \<and> PythonWebService_check tool_a ''uwsgi-python'' (world_of {''/data/project/a/www/python/src''})
       = (Inr (), world_of {''/data/project/a/www/python/src''})
   \<and> \<not> os_path_exists (world_of {}) (get_homedir_subpath tool_a ''www/python/src'')
   \<and> fst (PythonWebService_check tool_a ''uwsgi-python'' (world_of {}))
       = Inl (InvalidWebServiceException
           ''Could not find ~/www/python/src. Are you sure you have a proper uwsgi application in ~/www/python/src?'')"
  using C3_python_check [of tool_a "''uwsgi-python''" "world_of {''/data/project/a/www/python/src''}"]
    C3_python_check [of tool_a "''uwsgi-python''" "world_of {}"]
  by (simp add: os_path_exists_def get_homedir_subpath_def os_path_join_def tool_a_def world_of_def
      PythonWebService_check_def)

text \<open>
  Claim C4. For every tool and every filesystem state, \<^verbatim>\<open>UwsgiWebService.check\<close> raises
  \<^verbatim>\<open>InvalidWebServiceException\<close> if and only if the path \<^verbatim>\<open>uwsgi.ini\<close> below the tool's
  home does not exist, and returns normally when it exists.
\<close>

theorem C4_uwsgi_check:
  "((\<exists>m. fst (UwsgiWebService_check t wstype w) = Inl (InvalidWebServiceException m))
      = (\<not> os_path_exists w (get_homedir_subpath t ''uwsgi.ini'')))
   \<and> (isl (fst (UwsgiWebService_check t wstype w))
      = (\<not> os_path_exists w (get_homedir_subpath t ''uwsgi.ini'')))
   \<and> (os_path_exists w (get_homedir_subpath t ''uwsgi.ini'')
      \<longrightarrow> UwsgiWebService_check t wstype w = (Inr (), w))"
  by (simp add: UwsgiWebService_check_def Let_def)

theorem C4_uwsgi_check_witness:
  "os_path_exists (world_of {''/data/project/a/uwsgi.ini''})
     (get_homedir_subpath tool_a ''uwsgi.ini'')
   \<and> UwsgiWebService_check tool_a ''uwsgi-plain'' (world_of {''/data/project/a/uwsgi.ini''})
       = (Inr (), world_of {''/data/project/a/uwsgi.ini''})
   \<and> \<not> os_path_exists (world_of {}) (get_homedir_subpath tool_a ''uwsgi.ini'')
   \<and> fst (UwsgiWebService_check tool_a ''uwsgi-plain'' (world_of {}))
       = Inl (InvalidWebServiceException
           ''Could not find ~/uwsgi.ini. Are you sure you have a proper uwsgi config setup in ~/uwsgi.ini?'')"
  using C4_uwsgi_check [of tool_a "''uwsgi-plain''" "world_of {''/data/project/a/uwsgi.ini''}"]
    C4_uwsgi_check [of tool_a "''uwsgi-plain''" "world_of {}"]
  by (simp add: os_path_exists_def get_homedir_subpath_def os_path_join_def tool_a_def world_of_def
      UwsgiWebService_check_def)

text \<open>
  Claim C7. Whenever a check raises, the error is \<^verbatim>\<open>InvalidWebServiceException\<close> and
  its message names the missing path: the message of \<^verbatim>\<open>PythonWebService.check\<close> contains
  \<^verbatim>\<open>~/www/python/src\<close> and the message of \<^verbatim>\<open>UwsgiWebService.check\<close> contains
  \<^verbatim>\<open>~/uwsgi.ini\<close>.
\<close>

theorem C7_check_message:
  "(fst (PythonWebService_check t wstype w) = Inl e \<longrightarrow>
      (\<exists>m. e = InvalidWebServiceException m \<and> sublist ''~/www/python/src'' m))
   \<and> (fst (UwsgiWebService_check t wstype' w) = Inl e' \<longrightarrow>
      (\<exists>m. e' = InvalidWebServiceException m \<and> sublist ''~/uwsgi.ini'' m))"
proof -
  have p: "sublist ''~/www/python/src''
             (''Could not find ~/www/python/src. Are you sure you have a '' @
              ''proper uwsgi application in ~/www/python/src?'')"
    unfolding sublist_def
    by (rule exI [of _ "''Could not find ''"],
        rule exI [of _ "''. Are you sure you have a proper uwsgi application in ~/www/python/src?''"])
       simp
  have u: "sublist ''~/uwsgi.ini''
             (''Could not find ~/uwsgi.ini. Are you sure you have a '' @
              ''proper uwsgi config setup in ~/uwsgi.ini?'')"
    unfolding sublist_def
    by (rule exI [of _ "''Could not find ''"],
        rule exI [of _ "''. Are you sure you have a proper uwsgi config setup in ~/uwsgi.ini?''"])
       simp
  show ?thesis
    using p u
    by (auto simp: PythonWebService_check_def UwsgiWebService_check_def Let_def
        simp del: append.simps split: if_splits)
qed

theorem C7_check_message_witness:
  "fst (PythonWebService_check tool_a ''uwsgi-python'' (world_of {}))
     = Inl (InvalidWebServiceException
         ''Could not find ~/www/python/src. Are you sure you have a proper uwsgi application in ~/www/python/src?'')
   \<and> fst (UwsgiWebService_check tool_a ''uwsgi-plain'' (world_of {}))
     = Inl (InvalidWebServiceException
         ''Could not find ~/uwsgi.ini. Are you sure you have a proper uwsgi config setup in ~/uwsgi.ini?'')
   \<and> (\<exists>m. InvalidWebServiceException
         ''Could not find ~/www/python/src. Are you sure you have a proper uwsgi application in ~/www/python/src?''
           = InvalidWebServiceException m \<and> sublist ''~/www/python/src'' m)
   \<and> (\<exists>m. InvalidWebServiceException
         ''Could not find ~/uwsgi.ini. Are you sure you have a proper uwsgi config setup in ~/uwsgi.ini?''
           = InvalidWebServiceException m \<and> sublist ''~/uwsgi.ini'' m)"
proof -
  have a: "fst (PythonWebService_check tool_a ''uwsgi-python'' (world_of {}))
     = Inl (InvalidWebServiceException
         ''Could not find ~/www/python/src. Are you sure you have a proper uwsgi application in ~/www/python/src?'')"
    by (simp add: PythonWebService_check_def os_path_exists_def world_of_def)
  have b: "fst (UwsgiWebService_check tool_a ''uwsgi-plain'' (world_of {}))
     = Inl (InvalidWebServiceException
         ''Could not find ~/uwsgi.ini. Are you sure you have a proper uwsgi config setup in ~/uwsgi.ini?'')"
    by (simp add: UwsgiWebService_check_def os_path_exists_def world_of_def)
  from a b C7_check_message [of tool_a "''uwsgi-python''" "world_of {}"
      "InvalidWebServiceException
         ''Could not find ~/www/python/src. Are you sure you have a proper uwsgi application in ~/www/python/src?''"
      "''uwsgi-plain''"
      "InvalidWebServiceException
         ''Could not find ~/uwsgi.ini. Are you sure you have a proper uwsgi config setup in ~/uwsgi.ini?''"]
  show ?thesis by blast
qed

text \<open>
  Claim C9. The \<^verbatim>\<open>wstype\<close> argument has no influence on either check: for any two
  values of it, the outcome (return or raise, with the same message) and the world
  left behind are the same.
\<close>

theorem C9_check_ignores_wstype:
  "PythonWebService_check t wstype1 w = PythonWebService_check t wstype2 w
   \<and> UwsgiWebService_check t wstype1 w = UwsgiWebService_check t wstype2 w"
  by (simp add: PythonWebService_check_def UwsgiWebService_check_def)

section \<open>The command lines\<close>

text \<open>
  Claim C5. For every port, \<^verbatim>\<open>UwsgiWebService.run\<close> builds exactly the fixed command
  line \<^verbatim>\<open>/usr/bin/uwsgi --http-socket :<port> --logto <home>/uwsgi.log --ini
  <home>/uwsgi.ini --workers 4 --die-on-term --strict --master\<close>, in that order, and the
  line is determined by the port and the tool's home directory alone: a run of a tool
  with the same home, after any base-class \<^verbatim>\<open>run\<close> and in any world, launches the same
  list.
\<close>

theorem C5_uwsgi_command:
  assumes "super_run port w = (Inr (), w1)"
    and "super_run' port w' = (Inr (), w1')"
    and "home t' = home t"
  shows "map argv (launched (snd (UwsgiWebService_run super_run t port w))) =
           map argv (launched w1) @
           [[''/usr/bin/uwsgi'', ''--http-socket'', '':'' @ str port,
             ''--logto'', os_path_join (home t) ''uwsgi.log'',
             ''--ini'', os_path_join (home t) ''uwsgi.ini'',
             ''--workers'', ''4'', ''--die-on-term'', ''--strict'', ''--master'']]
         \<and> map argv (launched (snd (UwsgiWebService_run super_run' t' port w'))) =
           map argv (launched w1') @
           [[''/usr/bin/uwsgi'', ''--http-socket'', '':'' @ str port,
             ''--logto'', os_path_join (home t) ''uwsgi.log'',
             ''--ini'', os_path_join (home t) ''uwsgi.ini'',
             ''--workers'', ''4'', ''--die-on-term'', ''--strict'', ''--master'']]"
  using assms
  by (simp add: UwsgiWebService_run_argv UwsgiWebService_command_def get_homedir_subpath_def
      del: append.simps)

theorem C5_uwsgi_command_witness:
  "super_run_skip 8000 (world_of {}) = (Inr (), world_of {})
   \<and> super_run_skip 8000 (world_of {''/data/project/a/uwsgi.ini''})
       = (Inr (), world_of {''/data/project/a/uwsgi.ini''})
   \<and> home (tool_a\<lparr>name := ''b''\<rparr>) = home tool_a
   \<and> map argv (launched (snd (UwsgiWebService_run super_run_skip tool_a 8000 (world_of {})))) =
       [[''/usr/bin/uwsgi'', ''--http-socket'', '':8000'',
         ''--logto'', ''/data/project/a/uwsgi.log'',
         ''--ini'', ''/data/project/a/uwsgi.ini'',
         ''--workers'', ''4'', ''--die-on-term'', ''--strict'', ''--master'']]
   \<and> map argv (launched (snd (UwsgiWebService_run super_run_skip (tool_a\<lparr>name := ''b''\<rparr>) 8000
         (world_of {''/data/project/a/uwsgi.ini''})))) =
       [[''/usr/bin/uwsgi'', ''--http-socket'', '':8000'',
         ''--logto'', ''/data/project/a/uwsgi.log'',
         ''--ini'', ''/data/project/a/uwsgi.ini'',
         ''--workers'', ''4'', ''--die-on-term'', ''--strict'', ''--master'']]"
  using C5_uwsgi_command [of super_run_skip 8000 "world_of {}" "world_of {}"
      super_run_skip "world_of {''/data/project/a/uwsgi.ini''}"
      "world_of {''/data/project/a/uwsgi.ini''}" "tool_a\<lparr>name := ''b''\<rparr>" tool_a]
  by (simp add: super_run_skip_def tool_a_def world_of_def os_path_join_def str_examples)

text \<open>
  Claim C6. For every tool and every filesystem state, the command of
  \<^verbatim>\<open>PythonWebService.run\<close> contains the pair \<^verbatim>\<open>--venv <home>/www/python/venv\<close> if and
  only if that path exists; the conditional pairs come after the fixed flags, the venv
  pair before the ini pair when both are present.
\<close>

theorem C6_python_venv:
  assumes "super_run port w = (Inr (), w1)"
  shows "\<exists>cmd. map argv (launched (snd (PythonWebService_run super_run t port w))) =
             map argv (launched w1) @ [cmd]
         \<and> has_pair ''--venv'' (get_homedir_subpath t ''www/python/venv'') cmd
             = os_path_exists w1 (get_homedir_subpath t ''www/python/venv'')
         \<and> cmd =
             [''/usr/bin/uwsgi'', ''--plugin'', ''python,python3'',
              ''--http-socket'', '':'' @ str port,
              ''--chdir'', get_homedir_subpath t ''www/python/src'',
              ''--logto'', get_homedir_subpath t ''uwsgi.log'',
              ''--callable'', ''app'', ''--manage-script-name'', ''--workers'', ''4'',
              ''--mount'',
              ''/'' @ name t @ ''='' @ get_homedir_subpath t ''www/python/src/app.py'',
              ''--die-on-term'', ''--strict'', ''--master'']
             @ (if os_path_exists w1 (get_homedir_subpath t ''www/python/venv'')
                then [''--venv'', get_homedir_subpath t ''www/python/venv''] else [])
             @ (if os_path_exists w1 (get_homedir_subpath t ''www/python/uwsgi.ini'')
                then [''--ini'', get_homedir_subpath t ''www/python/uwsgi.ini''] else [])"
proof -
  let ?cmd = "PythonWebService_command t port w1"
  have "map argv (launched (snd (PythonWebService_run super_run t port w))) =
          map argv (launched w1) @ [?cmd]"
    using assms by (rule PythonWebService_run_argv)
  moreover have "has_pair ''--venv'' (get_homedir_subpath t ''www/python/venv'') ?cmd
      = os_path_exists w1 (get_homedir_subpath t ''www/python/venv'')"
    by (rule python_venv_pair)
  moreover have "?cmd =
             [''/usr/bin/uwsgi'', ''--plugin'', ''python,python3'',
              ''--http-socket'', '':'' @ str port,
              ''--chdir'', get_homedir_subpath t ''www/python/src'',
              ''--logto'', get_homedir_subpath t ''uwsgi.log'',
              ''--callable'', ''app'', ''--manage-script-name'', ''--workers'', ''4'',
              ''--mount'',
              ''/'' @ name t @ ''='' @ get_homedir_subpath t ''www/python/src/app.py'',
              ''--die-on-term'', ''--strict'', ''--master'']
             @ (if os_path_exists w1 (get_homedir_subpath t ''www/python/venv'')
                then [''--venv'', get_homedir_subpath t ''www/python/venv''] else [])
             @ (if os_path_exists w1 (get_homedir_subpath t ''www/python/uwsgi.ini'')
                then [''--ini'', get_homedir_subpath t ''www/python/uwsgi.ini''] else [])"
    by (simp add: PythonWebService_command_def Let_def)
  ultimately show ?thesis by blast
qed

theorem C6_python_venv_witness:
  "super_run_skip 8000
       (world_of {''/data/project/a/www/python/venv'', ''/data/project/a/www/python/uwsgi.ini''})
     = (Inr (),
        world_of {''/data/project/a/www/python/venv'', ''/data/project/a/www/python/uwsgi.ini''})
   \<and> (\<exists>cmd. map argv (launched (snd (PythonWebService_run super_run_skip tool_a 8000
          (world_of {''/data/project/a/www/python/venv'',
                     ''/data/project/a/www/python/uwsgi.ini''})))) = [cmd]
        \<and> has_pair ''--venv'' ''/data/project/a/www/python/venv'' cmd
        \<and> cmd =
           [''/usr/bin/uwsgi'', ''--plugin'', ''python,python3'', ''--http-socket'', '':8000'',
            ''--chdir'', ''/data/project/a/www/python/src'',
            ''--logto'', ''/data/project/a/uwsgi.log'',
            ''--callable'', ''app'', ''--manage-script-name'', ''--workers'', ''4'',
            ''--mount'', ''/a=/data/project/a/www/python/src/app.py'',
            ''--die-on-term'', ''--strict'', ''--master'',
            ''--venv'', ''/data/project/a/www/python/venv'',
            ''--ini'', ''/data/project/a/www/python/uwsgi.ini''])"
  using C6_python_venv [of super_run_skip 8000
      "world_of {''/data/project/a/www/python/venv'', ''/data/project/a/www/python/uwsgi.ini''}"
      "world_of {''/data/project/a/www/python/venv'', ''/data/project/a/www/python/uwsgi.ini''}"
      tool_a]
  by (simp add: super_run_skip_def tool_a_def world_of_def os_path_join_def str_examples
      get_homedir_subpath_def os_path_exists_def)

text \<open>
  Claim C10. For every port, with no range or validity check, the command of both
  \<^verbatim>\<open>run\<close> operations contains \<^verbatim>\<open>--http-socket\<close> immediately followed by \<^verbatim>\<open>:\<close> and
  the decimal rendering of the port; negative and out-of-range ports are passed on as
  they are.
\<close>

theorem C10_http_socket:
  assumes "super_run port w = (Inr (), w1)"
  shows "(\<exists>cmd. map argv (launched (snd (PythonWebService_run super_run t port w))) =
             map argv (launched w1) @ [cmd]
           \<and> has_pair ''--http-socket'' ('':'' @ str port) cmd
           \<and> cmd ! 3 = ''--http-socket'' \<and> cmd ! 4 = '':'' @ str port)
         \<and> (\<exists>cmd. map argv (launched (snd (UwsgiWebService_run super_run t port w))) =
             map argv (launched w1) @ [cmd]
           \<and> has_pair ''--http-socket'' ('':'' @ str port) cmd
           \<and> cmd ! 1 = ''--http-socket'' \<and> cmd ! 2 = '':'' @ str port)"
proof -
  have p: "has_pair ''--http-socket'' ('':'' @ str port) (PythonWebService_command t port w1)
           \<and> PythonWebService_command t port w1 ! 3 = ''--http-socket''
           \<and> PythonWebService_command t port w1 ! 4 = '':'' @ str port"
    by (simp add: PythonWebService_command_def Let_def)
  have u: "has_pair ''--http-socket'' ('':'' @ str port) (UwsgiWebService_command t port)
           \<and> UwsgiWebService_command t port ! 1 = ''--http-socket''
           \<and> UwsgiWebService_command t port ! 2 = '':'' @ str port"
    by (simp add: UwsgiWebService_command_def)
  from p PythonWebService_run_argv [of super_run port w w1 t] assms
  have "\<exists>cmd. map argv (launched (snd (PythonWebService_run super_run t port w))) =
             map argv (launched w1) @ [cmd]
           \<and> has_pair ''--http-socket'' ('':'' @ str port) cmd
           \<and> cmd ! 3 = ''--http-socket'' \<and> cmd ! 4 = '':'' @ str port"
    by blast
  moreover from u UwsgiWebService_run_argv [of super_run port w w1 t] assms
  have "\<exists>cmd. map argv (launched (snd (UwsgiWebService_run super_run t port w))) =
             map argv (launched w1) @ [cmd]
           \<and> has_pair ''--http-socket'' ('':'' @ str port) cmd
           \<and> cmd ! 1 = ''--http-socket'' \<and> cmd ! 2 = '':'' @ str port"
    by blast
  ultimately show ?thesis by blast
qed

theorem C10_http_socket_witness:
  "super_run_skip (- 1) (world_of {}) = (Inr (), world_of {})
   \<and> str (- 1) = ''-1''
   \<and> (\<exists>cmd. map argv (launched (snd (PythonWebService_run super_run_skip tool_a (- 1)
          (world_of {})))) = [cmd]
        \<and> has_pair ''--http-socket'' '':-1'' cmd)
   \<and> (\<exists>cmd. map argv (launched (snd (UwsgiWebService_run super_run_skip tool_a (- 1)
          (world_of {})))) = [cmd]
        \<and> has_pair ''--http-socket'' '':-1'' cmd)"
proof -
  have h: "super_run_skip (- 1) (world_of {}) = (Inr (), world_of {})"
    by (simp add: super_run_skip_def)
  have s: "str (- 1) = ''-1''"
    by (simp add: str_examples)
  have e: "map argv (launched (world_of {})) = []"
    by (simp add: world_of_def)
  from C10_http_socket [of super_run_skip "- 1" "world_of {}" "world_of {}" tool_a] h
  show ?thesis
    unfolding s e by auto
qed

text \<open>
  Claim C1, as amended. In \<^verbatim>\<open>PythonWebService.run\<close> the pair \<^verbatim>\<open>--ini
  <home>/www/python/uwsgi.ini\<close> is in the command if and only if that file exists when
  the command is built. In \<^verbatim>\<open>UwsgiWebService.run\<close> the pair \<^verbatim>\<open>--ini <home>/uwsgi.ini\<close>
  is in the command always, whether or not the file exists: the presence of the file is
  the business of \<^verbatim>\<open>UwsgiWebService.check\<close>.
\<close>

theorem C1_ini_flag:
  assumes "super_run port w = (Inr (), w1)"
  shows "(\<exists>cmd. map argv (launched (snd (PythonWebService_run super_run t port w))) =
             map argv (launched w1) @ [cmd]
           \<and> has_pair ''--ini'' (get_homedir_subpath t ''www/python/uwsgi.ini'') cmd
               = os_path_exists w1 (get_homedir_subpath t ''www/python/uwsgi.ini''))
         \<and> (\<exists>cmd. map argv (launched (snd (UwsgiWebService_run super_run t port w))) =
             map argv (launched w1) @ [cmd]
           \<and> has_pair ''--ini'' (get_homedir_subpath t ''uwsgi.ini'') cmd)"
proof -
  have u: "has_pair ''--ini'' (get_homedir_subpath t ''uwsgi.ini'')
             (UwsgiWebService_command t port)"
    by (simp add: UwsgiWebService_command_def)
  from python_ini_pair [of t port w1] PythonWebService_run_argv [of super_run port w w1 t] assms
  have "\<exists>cmd. map argv (launched (snd (PythonWebService_run super_run t port w))) =
             map argv (launched w1) @ [cmd]
           \<and> has_pair ''--ini'' (get_homedir_subpath t ''www/python/uwsgi.ini'') cmd
               = os_path_exists w1 (get_homedir_subpath t ''www/python/uwsgi.ini'')"
    by blast
  moreover from u UwsgiWebService_run_argv [of super_run port w w1 t] assms
  have "\<exists>cmd. map argv (launched (snd (UwsgiWebService_run super_run t port w))) =
             map argv (launched w1) @ [cmd]
           \<and> has_pair ''--ini'' (get_homedir_subpath t ''uwsgi.ini'') cmd"
    by blast
  ultimately show ?thesis by blast
qed

theorem C1_ini_flag_witness:
  "super_run_skip 8000 (world_of {''/data/project/a/www/python/uwsgi.ini''})
     = (Inr (), world_of {''/data/project/a/www/python/uwsgi.ini''})
   \<and> os_path_exists (world_of {''/data/project/a/www/python/uwsgi.ini''})
       (get_homedir_subpath tool_a ''www/python/uwsgi.ini'')
   \<and> (\<exists>cmd. map argv (launched (snd (PythonWebService_run super_run_skip tool_a 8000
          (world_of {''/data/project/a/www/python/uwsgi.ini''})))) = [cmd]
        \<and> has_pair ''--ini'' (get_homedir_subpath tool_a ''www/python/uwsgi.ini'') cmd)
   \<and> (\<exists>cmd. map argv (launched (snd (UwsgiWebService_run super_run_skip tool_a 8000
          (world_of {''/data/project/a/www/python/uwsgi.ini''})))) = [cmd]
        \<and> has_pair ''--ini'' (get_homedir_subpath tool_a ''uwsgi.ini'') cmd)"
proof -
  let ?W = "world_of {''/data/project/a/www/python/uwsgi.ini''}"
  have h: "super_run_skip 8000 ?W = (Inr (), ?W)"
    by (simp add: super_run_skip_def)
  have x: "os_path_exists ?W (get_homedir_subpath tool_a ''www/python/uwsgi.ini'')"
    by (simp add: os_path_exists_def get_homedir_subpath_def os_path_join_def tool_a_def
        world_of_def)
  have e: "map argv (launched ?W) = []"
    by (simp add: world_of_def)
  from C1_ini_flag [of super_run_skip 8000 ?W ?W tool_a] h x
  show ?thesis
    unfolding e by auto
qed

text \<open>
  Claim C1 as it was stated fails for \<^verbatim>\<open>UwsgiWebService.run\<close>: with no file at all on
  the filesystem, the launched command still carries \<^verbatim>\<open>--ini /data/project/a/uwsgi.ini\<close>.
\<close>

theorem C1_uwsgi_ini_counterexample:
  "\<not> os_path_exists (world_of {}) (get_homedir_subpath tool_a ''uwsgi.ini'')
   \<and> get_homedir_subpath tool_a ''uwsgi.ini'' = ''/data/project/a/uwsgi.ini''
   \<and> map argv (launched (snd (UwsgiWebService_run super_run_skip tool_a 8000 (world_of {})))) =
       [[''/usr/bin/uwsgi'', ''--http-socket'', '':8000'',
         ''--logto'', ''/data/project/a/uwsgi.log'',
         ''--ini'', ''/data/project/a/uwsgi.ini'',
         ''--workers'', ''4'', ''--die-on-term'', ''--strict'', ''--master'']]
   \<and> has_pair ''--ini'' (get_homedir_subpath tool_a ''uwsgi.ini'')
       [''/usr/bin/uwsgi'', ''--http-socket'', '':8000'',
        ''--logto'', ''/data/project/a/uwsgi.log'',
        ''--ini'', ''/data/project/a/uwsgi.ini'',
        ''--workers'', ''4'', ''--die-on-term'', ''--strict'', ''--master'']"
  by (simp add: UwsgiWebService_run_def and_then_def super_run_skip_def check_call_def
      UwsgiWebService_command_def get_homedir_subpath_def os_path_join_def os_path_exists_def
      tool_a_def world_of_def exit_ok_def str_examples)




section \<open>The launch\<close>

text \<open>
  Claim C8. In every execution of \<^verbatim>\<open>PythonWebService.run\<close> and \<^verbatim>\<open>UwsgiWebService.run\<close>
  that reaches the launch, the server binary is started with the standard streams of
  the launching process itself: the \<^verbatim>\<open>stdin\<close>, \<^verbatim>\<open>stdout\<close> and \<^verbatim>\<open>stderr\<close> handed to the
  child are \<^verbatim>\<open>sys.stdin\<close>, \<^verbatim>\<open>sys.stdout\<close> and \<^verbatim>\<open>sys.stderr\<close>, and the launch is the
  only one the adapter adds to the trace.
\<close>

theorem C8_inherited_streams:
  assumes "super_run port w = (Inr (), w1)"
  shows "launched (snd (PythonWebService_run super_run t port w)) =
           launched w1 @
           [\<lparr>argv = PythonWebService_command t port w1,
             l_stdin = sys_stdin w1, l_stdout = sys_stdout w1, l_stderr = sys_stderr w1\<rparr>]
         \<and> launched (snd (UwsgiWebService_run super_run t port w)) =
           launched w1 @
           [\<lparr>argv = UwsgiWebService_command t port,
             l_stdin = sys_stdin w1, l_stdout = sys_stdout w1, l_stderr = sys_stderr w1\<rparr>]"
  using assms
  by (simp add: PythonWebService_run_returns UwsgiWebService_run_returns launched_check_call)

theorem C8_inherited_streams_witness:
  "super_run_skip 8000 (world_of {}) = (Inr (), world_of {})
   \<and> sys_stdin (world_of {}) = Stream 0
   \<and> sys_stdout (world_of {}) = Stream 1
   \<and> sys_stderr (world_of {}) = Stream 2
   \<and> map l_stdin (launched (snd (PythonWebService_run super_run_skip tool_a 8000 (world_of {}))))
       = [Stream 0]
   \<and> map l_stdout (launched (snd (PythonWebService_run super_run_skip tool_a 8000 (world_of {}))))
       = [Stream 1]
   \<and> map l_stderr (launched (snd (PythonWebService_run super_run_skip tool_a 8000 (world_of {}))))
       = [Stream 2]
   \<and> map l_stdin (launched (snd (UwsgiWebService_run super_run_skip tool_a 8000 (world_of {}))))
       = [Stream 0]
   \<and> map l_stdout (launched (snd (UwsgiWebService_run super_run_skip tool_a 8000 (world_of {}))))
       = [Stream 1]
   \<and> map l_stderr (launched (snd (UwsgiWebService_run super_run_skip tool_a 8000 (world_of {}))))
       = [Stream 2]"
proof -
  have h: "super_run_skip 8000 (world_of {}) = (Inr (), world_of {})"
    by (simp add: super_run_skip_def)
  from C8_inherited_streams [of super_run_skip 8000 "world_of {}" "world_of {}" tool_a] h
  show ?thesis by (simp add: world_of_def)
qed

end
